theory Spec2Isabelle
  imports Main
begin

section \<open>Python values, exceptions and the builtins the module relies on\<close>

text \<open>
  The module \<^verbatim>\<open>data_extraction.py\<close> handles articles typed \<^verbatim>\<open>Dict[str, Any]\<close>.  A value is
  \<^verbatim>\<open>None\<close>, a bool, an int, a str, a list, a tuple, a dict with str keys (kept in insertion
  order) or an opaque object of a named class that is none of these (a set, bytes, a
  datetime): it has no \<^verbatim>\<open>get\<close> and no \<^verbatim>\<open>replace\<close> attribute and the JSON encoder rejects
  it.  A str is the list of its UTF-8 code units: every operation used here (replacing
  a space, JSON escaping, reading decimal digits) acts on ASCII code units and leaves the
  units of a non-ASCII character untouched.  Floats are not part of the model.
\<close>

datatype pyval =
    PNone
  | PBool bool
  | PInt int
  | PStr string
  | PList "pyval list"
  | PTuple "pyval list"
  | PDict "(string \<times> pyval) list"
  | PObj string

text \<open>
  An exception is its class name and the text \<^verbatim>\<open>str(e)\<close> gives.  The type stands for the
  subclasses of \<^verbatim>\<open>Exception\<close>, which is what the three handlers of the module catch.
\<close>

datatype py_exn = PyExn string string

fun exn_str :: "py_exn \<Rightarrow> string" where
  "exn_str (PyExn cls msg) = msg"

fun type_name :: "pyval \<Rightarrow> string" where
  "type_name PNone = ''NoneType''"
| "type_name (PBool b) = ''bool''"
| "type_name (PInt i) = ''int''"
| "type_name (PStr s) = ''str''"
| "type_name (PList vs) = ''list''"
| "type_name (PTuple vs) = ''tuple''"
| "type_name (PDict kvs) = ''dict''"
| "type_name (PObj cls) = cls"

definition attribute_error :: "pyval \<Rightarrow> string \<Rightarrow> py_exn" where
  "attribute_error v attr =
     PyExn ''AttributeError''
       ([CHR 0x27] @ type_name v @ [CHR 0x27] @ '' object has no attribute '' @
        [CHR 0x27] @ attr @ [CHR 0x27])"

subsection \<open>Decimal rendering and reading of integers\<close>

definition digit_char :: "nat \<Rightarrow> char" where
  "digit_char n = ''0123456789abcdef'' ! n"

function digits_of :: "nat \<Rightarrow> string" where
  "digits_of n =
     (if n < 10 then [digit_char n] else digits_of (n div 10) @ [digit_char (n mod 10)])"
  by pat_completeness auto
termination
  by (relation "measure id") auto

declare digits_of.simps [simp del]

text \<open>\<^verbatim>\<open>int.__repr__\<close>.\<close>

definition int_repr :: "int \<Rightarrow> string" where
  "int_repr i = (if i < 0 then CHR ''-'' # digits_of (nat (- i)) else digits_of (nat i))"

definition is_digit :: "char \<Rightarrow> bool" where
  "is_digit c \<longleftrightarrow> 48 \<le> (of_char c :: nat) \<and> (of_char c :: nat) \<le> 57"

definition digit_val :: "char \<Rightarrow> nat" where
  "digit_val c = of_char c - 48"

text \<open>
  \<^verbatim>\<open>int(s)\<close> for a str: surrounding whitespace is stripped, one sign is allowed, then
  decimal digits, with single underscores allowed between digits.  Only ASCII whitespace
  and ASCII digits are recognised: a str with other Unicode whitespace or digits is
  outside the model and is reported as invalid.  The message of the ValueError quotes the
  argument with the interpreter's \<^verbatim>\<open>repr\<close>, which is a parameter.
\<close>

definition is_space :: "char \<Rightarrow> bool" where
  "is_space c \<longleftrightarrow>
     (let n = (of_char c :: nat) in (9 \<le> n \<and> n \<le> 13) \<or> (28 \<le> n \<and> n \<le> 32))"

definition strip :: "string \<Rightarrow> string" where
  "strip s = rev (dropWhile is_space (rev (dropWhile is_space s)))"

fun digits_value :: "nat \<Rightarrow> string \<Rightarrow> nat option" where
  "digits_value acc [] = Some acc"
| "digits_value acc [c] = (if is_digit c then Some (acc * 10 + digit_val c) else None)"
| "digits_value acc (c # d # cs) =
     (if is_digit c then digits_value (acc * 10 + digit_val c) (d # cs)
      else if c = CHR ''_'' \<and> is_digit d then digits_value (acc * 10 + digit_val d) cs
      else None)"

definition unsigned_value :: "string \<Rightarrow> nat option" where
  "unsigned_value s =
     (case s of [] \<Rightarrow> None
      | c # cs \<Rightarrow> if is_digit c then digits_value (digit_val c) cs else None)"

definition py_int :: "(pyval \<Rightarrow> string) \<Rightarrow> string \<Rightarrow> py_exn + int" where
  "py_int repr s =
     (let t = strip s;
          r = (case t of
                 [] \<Rightarrow> None
               | c # cs \<Rightarrow>
                   if c = CHR ''-'' then map_option (\<lambda>n. - int n) (unsigned_value cs)
                   else if c = CHR ''+'' then map_option int (unsigned_value cs)
                   else map_option int (unsigned_value t))
      in case r of
           Some i \<Rightarrow> Inr i
         | None \<Rightarrow>
             Inl (PyExn ''ValueError''
                    (''invalid literal for int() with base 10: '' @ repr (PStr s))))"

subsection \<open>Formatting inside an f-string\<close>

text \<open>
  \<^verbatim>\<open>f"{v}"\<close> is \<^verbatim>\<open>format(v, "")\<close>: a str is inserted as it is, an int in decimal,
  \<^verbatim>\<open>None\<close> and the bools by name; containers and other objects are rendered by the
  interpreter's \<^verbatim>\<open>repr\<close>, which is a parameter.
\<close>

definition py_format :: "(pyval \<Rightarrow> string) \<Rightarrow> pyval \<Rightarrow> string" where
  "py_format repr v =
     (case v of
        PStr s \<Rightarrow> s
      | PInt i \<Rightarrow> int_repr i
      | PNone \<Rightarrow> ''None''
      | PBool b \<Rightarrow> (if b then ''True'' else ''False'')
      | _ \<Rightarrow> repr v)"

subsection \<open>Dictionary and string methods\<close>

text \<open>\<^verbatim>\<open>d.get(key, default)\<close>; anything but a dict has no attribute \<^verbatim>\<open>get\<close>.\<close>

definition py_get :: "pyval \<Rightarrow> string \<Rightarrow> pyval \<Rightarrow> py_exn + pyval" where
  "py_get d key dflt =
     (case d of
        PDict kvs \<Rightarrow> Inr (case map_of kvs key of None \<Rightarrow> dflt | Some v \<Rightarrow> v)
      | _ \<Rightarrow> Inl (attribute_error d ''get''))"

text \<open>\<^verbatim>\<open>s.replace(old, new)\<close> for one-character \<^verbatim>\<open>old\<close> and \<^verbatim>\<open>new\<close>; only a str has it.\<close>

definition py_replace :: "pyval \<Rightarrow> char \<Rightarrow> char \<Rightarrow> py_exn + string" where
  "py_replace v old new =
     (case v of
        PStr s \<Rightarrow> Inr (map (\<lambda>c. if c = old then new else c) s)
      | _ \<Rightarrow> Inl (attribute_error v ''replace''))"

section \<open>The blob name\<close>

text \<open>
  Line 116 of \<^verbatim>\<open>save_to_blob_storage\<close>:
  \<^verbatim>\<open>f"{article.get('id', 'unknown')}-{article.get('title', 'untitled').replace(' ', '_')}.json"\<close>.
  The two fields are evaluated left to right.
\<close>

definition blob_name :: "(pyval \<Rightarrow> string) \<Rightarrow> pyval \<Rightarrow> py_exn + string" where
  "blob_name repr article =
     (case py_get article ''id'' (PStr ''unknown'') of
        Inl e \<Rightarrow> Inl e
      | Inr i \<Rightarrow>
          (case py_get article ''title'' (PStr ''untitled'') of
             Inl e \<Rightarrow> Inl e
           | Inr t \<Rightarrow>
               (case py_replace t (CHR '' '') (CHR ''_'') of
                  Inl e \<Rightarrow> Inl e
                | Inr u \<Rightarrow> Inr (py_format repr i @ ''-'' @ u @ ''.json''))))"

section \<open>JSON serialisation: \<^verbatim>\<open>json.dumps(article, ensure_ascii=False)\<close>\<close>

text \<open>
  With \<^verbatim>\<open>ensure_ascii=False\<close> the encoder escapes only the backslash, the double quote
  and the control characters below U+0020 (table \<^verbatim>\<open>ESCAPE_DCT\<close>); every other character,
  non-ASCII ones included, is written as it is.
\<close>

definition escape_char :: "char \<Rightarrow> string" where
  "escape_char c =
     (if c = CHR 0x5C then [CHR 0x5C, CHR 0x5C]
      else if c = CHR 0x22 then [CHR 0x5C, CHR 0x22]
      else if c = CHR 0x08 then [CHR 0x5C, CHR ''b'']
      else if c = CHR 0x0C then [CHR 0x5C, CHR ''f'']
      else if c = CHR 0x0A then [CHR 0x5C, CHR ''n'']
      else if c = CHR 0x0D then [CHR 0x5C, CHR ''r'']
      else if c = CHR 0x09 then [CHR 0x5C, CHR ''t'']
      else if (of_char c :: nat) < 32 then
        [CHR 0x5C, CHR ''u'', CHR ''0'', CHR ''0'',
         digit_char ((of_char c :: nat) div 16), digit_char ((of_char c :: nat) mod 16)]
      else [c])"

definition py_encode_basestring :: "string \<Rightarrow> string" where
  "py_encode_basestring s = [CHR 0x22] @ concat (map escape_char s) @ [CHR 0x22]"

text \<open>
  The encoder proper, with the default separators \<^verbatim>\<open>", "\<close> and \<^verbatim>\<open>": "\<close>.  A list and a
  tuple both become a JSON array.  \<open>iterencode_list\<close> and \<open>iterencode_dict\<close> give the
  items between the brackets.  The first object that is not serialisable raises TypeError.
\<close>

fun iterencode :: "pyval \<Rightarrow> py_exn + string"
  and iterencode_list :: "pyval list \<Rightarrow> py_exn + string"
  and iterencode_dict :: "(string \<times> pyval) list \<Rightarrow> py_exn + string"
where
  "iterencode (PStr s) = Inr (py_encode_basestring s)"
| "iterencode PNone = Inr ''null''"
| "iterencode (PBool b) = Inr (if b then ''true'' else ''false'')"
| "iterencode (PInt i) = Inr (int_repr i)"
| "iterencode (PList vs) =
     (case iterencode_list vs of Inl e \<Rightarrow> Inl e | Inr s \<Rightarrow> Inr (''['' @ s @ '']''))"
| "iterencode (PTuple vs) =
     (case iterencode_list vs of Inl e \<Rightarrow> Inl e | Inr s \<Rightarrow> Inr (''['' @ s @ '']''))"
| "iterencode (PDict kvs) =
     (case iterencode_dict kvs of Inl e \<Rightarrow> Inl e | Inr s \<Rightarrow> Inr (''{'' @ s @ ''}''))"
| "iterencode (PObj cls) =
     Inl (PyExn ''TypeError'' (''Object of type '' @ cls @ '' is not JSON serializable''))"
| "iterencode_list [] = Inr []"
| "iterencode_list [v] = iterencode v"
| "iterencode_list (v # v' # vs) =
     (case iterencode v of
        Inl e \<Rightarrow> Inl e
      | Inr s \<Rightarrow>
          (case iterencode_list (v' # vs) of
             Inl e \<Rightarrow> Inl e
           | Inr r \<Rightarrow> Inr (s @ '', '' @ r)))"
| "iterencode_dict [] = Inr []"
| "iterencode_dict [(k, v)] =
     (case iterencode v of
        Inl e \<Rightarrow> Inl e
      | Inr s \<Rightarrow> Inr (py_encode_basestring k @ '': '' @ s))"
| "iterencode_dict ((k, v) # kv # kvs) =
     (case iterencode v of
        Inl e \<Rightarrow> Inl e
      | Inr s \<Rightarrow>
          (case iterencode_dict (kv # kvs) of
             Inl e \<Rightarrow> Inl e
           | Inr r \<Rightarrow> Inr (py_encode_basestring k @ '': '' @ s @ '', '' @ r)))"

definition json_dumps :: "pyval \<Rightarrow> py_exn + string" where
  "json_dumps v = iterencode v"

section \<open>The world outside the module\<close>

text \<open>
  Everything the module reaches but does not own: the process environment, the blob
  service, the dataset hub, the clock, the log and the interpreter's \<^verbatim>\<open>repr\<close>.  A call of
  the storage SDK is recorded in \<open>sdk_calls\<close>; \<open>fault\<close> says which calls the service
  fails (network, credentials, invalid names).  What a call has changed stays changed
  when a later call raises.
\<close>

datatype sdk_call =
    FromConnectionString string
  | GetContainerClient string
  | ContainerExists string
  | CreateContainer string
  | GetBlobClient string string
  | UploadBlob string string string bool

datatype dataset = Dataset (rows: "pyval list")

record datetime =
  year :: nat
  month :: nat
  day :: nat
  hour :: nat
  minute :: nat
  second :: nat
  microsecond :: nat

record world =
  environ :: "string \<rightharpoonup> string"
  containers :: "string \<rightharpoonup> (string \<rightharpoonup> string)"
  sdk_calls :: "sdk_call list"
  fault :: "sdk_call \<Rightarrow> py_exn option"
  hub :: "string \<Rightarrow> string \<Rightarrow> string \<Rightarrow> py_exn + dataset"
  utcnow :: datetime
  log :: "(string \<times> string) list"
  py_repr :: "pyval \<Rightarrow> string"

text \<open>\<^verbatim>\<open>os.environ.get(key, default)\<close>.\<close>

definition environ_get :: "world \<Rightarrow> string \<Rightarrow> string \<Rightarrow> string" where
  "environ_get w key dflt = (case environ w key of None \<Rightarrow> dflt | Some v \<Rightarrow> v)"

definition logger_info :: "world \<Rightarrow> string \<Rightarrow> world" where
  "logger_info w msg = w\<lparr>log := log w @ [(''INFO'', msg)]\<rparr>"

definition logger_error :: "world \<Rightarrow> string \<Rightarrow> world" where
  "logger_error w msg = w\<lparr>log := log w @ [(''ERROR'', msg)]\<rparr>"

text \<open>Sequencing of calls that may raise: the first exception ends the sequence.\<close>

definition bind_io ::
  "(py_exn + 'a) \<times> world \<Rightarrow> ('a \<Rightarrow> world \<Rightarrow> (py_exn + 'b) \<times> world) \<Rightarrow> (py_exn + 'b) \<times> world"
where
  "bind_io r k = (case r of (Inl e, w) \<Rightarrow> (Inl e, w) | (Inr x, w) \<Rightarrow> k x w)"

subsection \<open>The blob service\<close>

definition sdk_request :: "sdk_call \<Rightarrow> world \<Rightarrow> (py_exn + unit) \<times> world" where
  "sdk_request c w =
     (let w' = w\<lparr>sdk_calls := sdk_calls w @ [c]\<rparr>
      in case fault w c of Some e \<Rightarrow> (Inl e, w') | None \<Rightarrow> (Inr (), w'))"

definition from_connection_string :: "string \<Rightarrow> world \<Rightarrow> (py_exn + unit) \<times> world" where
  "from_connection_string cs w = sdk_request (FromConnectionString cs) w"

definition get_container_client :: "string \<Rightarrow> world \<Rightarrow> (py_exn + unit) \<times> world" where
  "get_container_client cn w = sdk_request (GetContainerClient cn) w"

definition container_exists :: "string \<Rightarrow> world \<Rightarrow> (py_exn + bool) \<times> world" where
  "container_exists cn w =
     bind_io (sdk_request (ContainerExists cn) w) (\<lambda>_ w. (Inr (containers w cn \<noteq> None), w))"

definition create_container :: "string \<Rightarrow> world \<Rightarrow> (py_exn + unit) \<times> world" where
  "create_container cn w =
     bind_io (sdk_request (CreateContainer cn) w)
       (\<lambda>_ w. if containers w cn \<noteq> None
               then (Inl (PyExn ''ResourceExistsError''
                            ''The specified container already exists.''), w)
               else (Inr (), w\<lparr>containers := (containers w)(cn \<mapsto> Map.empty)\<rparr>))"

definition get_blob_client :: "string \<Rightarrow> string \<Rightarrow> world \<Rightarrow> (py_exn + unit) \<times> world" where
  "get_blob_client cn bn w = sdk_request (GetBlobClient cn bn) w"

definition upload_blob ::
  "string \<Rightarrow> string \<Rightarrow> string \<Rightarrow> bool \<Rightarrow> world \<Rightarrow> (py_exn + unit) \<times> world"
where
  "upload_blob cn bn content overwrite w =
     bind_io (sdk_request (UploadBlob cn bn content overwrite) w)
       (\<lambda>_ w. case containers w cn of
                 None \<Rightarrow>
                   (Inl (PyExn ''ResourceNotFoundError''
                           ''The specified container does not exist.''), w)
               | Some blobs \<Rightarrow>
                   if \<not> overwrite \<and> blobs bn \<noteq> None
                   then (Inl (PyExn ''ResourceExistsError''
                                ''The specified blob already exists.''), w)
                   else (Inr (), w\<lparr>containers := (containers w)(cn \<mapsto> blobs(bn \<mapsto> content))\<rparr>))"

subsection \<open>The dataset library\<close>

text \<open>
  Modelled from the spec: \<^verbatim>\<open>Dataset.select\<close> and iteration belong to the external
  \<^verbatim>\<open>datasets\<close> library, which is not in the repository.  A dataset is the sequence of its
  records; \<^verbatim>\<open>select(indices)\<close> gives the records at the indices, in the order of the
  indices, and an index past the last record fails the library's bounds check with
  IndexError.  \<^verbatim>\<open>range(n)\<close> is \<open>0, \<dots>, n - 1\<close>, empty for \<open>n \<le> 0\<close>.
\<close>

definition py_range :: "int \<Rightarrow> nat list" where
  "py_range n = [0 ..< nat n]"

definition dataset_select :: "dataset \<Rightarrow> nat list \<Rightarrow> py_exn + dataset" where
  "dataset_select ds idxs =
     (if list_all (\<lambda>i. i < length (rows ds)) idxs
      then Inr (Dataset (map (\<lambda>i. rows ds ! i) idxs))
      else Inl (PyExn ''IndexError''
                  (''Index '' @ int_repr (int (fold max idxs 0)) @
                   '' out of range for dataset of size '' @
                   int_repr (int (length (rows ds))) @ ''.'')))"

text \<open>\<^verbatim>\<open>load_dataset(name, subset, split="train")\<close> asks the hub.\<close>

definition load_dataset ::
  "string \<Rightarrow> string \<Rightarrow> string \<Rightarrow> world \<Rightarrow> (py_exn + dataset) \<times> world"
where
  "load_dataset name sub split w = (hub w name sub split, w)"

subsection \<open>The clock\<close>

definition zfill :: "nat \<Rightarrow> string \<Rightarrow> string" where
  "zfill k s = replicate (k - length s) (CHR ''0'') @ s"

text \<open>\<^verbatim>\<open>datetime.isoformat()\<close> of a naive datetime.\<close>

definition isoformat :: "datetime \<Rightarrow> string" where
  "isoformat d =
     zfill 4 (digits_of (year d)) @ ''-'' @ zfill 2 (digits_of (month d)) @ ''-'' @
     zfill 2 (digits_of (day d)) @ ''T'' @ zfill 2 (digits_of (hour d)) @ '':'' @
     zfill 2 (digits_of (minute d)) @ '':'' @ zfill 2 (digits_of (second d)) @
     (if microsecond d = 0 then [] else ''.'' @ zfill 6 (digits_of (microsecond d)))"

section \<open>The class \<^verbatim>\<open>WikipediaDataExtractor\<close>\<close>

text \<open>The attributes \<^verbatim>\<open>__init__\<close> sets (the logger is the world's log).\<close>

record extractor =
  dataset_name :: string
  subset :: string
  sample_size :: int

text \<open>\<^verbatim>\<open>__init__\<close>: three environment variables are read; \<^verbatim>\<open>int\<close> may raise.\<close>

definition init :: "world \<Rightarrow> py_exn + extractor" where
  "init w =
     (case py_int (py_repr w) (environ_get w ''WIKIPEDIA_SAMPLE_SIZE'' ''1000'') of
        Inl e \<Rightarrow> Inl e
      | Inr n \<Rightarrow>
          Inr \<lparr>dataset_name = environ_get w ''WIKIPEDIA_DATASET_NAME'' ''wikimedia/wikipedia'',
               subset = environ_get w ''WIKIPEDIA_SUBSET'' ''20220301.en'',
               sample_size = n\<rparr>)"

subsection \<open>\<^verbatim>\<open>load_wikipedia_subset\<close>\<close>

text \<open>The body of the \<^verbatim>\<open>try\<close> block, lines 43 to 53.\<close>

definition load_body :: "extractor \<Rightarrow> int \<Rightarrow> world \<Rightarrow> (py_exn + pyval list) \<times> world" where
  "load_body self n w =
     bind_io
       (load_dataset (dataset_name self) (subset self) ''train''
          (logger_info w
             (''Loading Wikipedia dataset '' @ dataset_name self @ ''/'' @ subset self)))
       (\<lambda>ds w.
          bind_io
            (dataset_select ds (py_range n),
             logger_info w (''Selecting '' @ int_repr n @ '' articles from dataset''))
            (\<lambda>sampled_dataset w.
               let articles = rows sampled_dataset
               in (Inr articles,
                   logger_info w
                     (''Successfully loaded '' @ int_repr (int (length articles)) @
                      '' articles''))))"

text \<open>The handler logs and re-raises.\<close>

definition load_wikipedia_subset ::
  "extractor \<Rightarrow> int option \<Rightarrow> world \<Rightarrow> (py_exn + pyval list) \<times> world"
where
  "load_wikipedia_subset self requested w =
     (let n = (case requested of None \<Rightarrow> sample_size self | Some k \<Rightarrow> k)
      in case load_body self n w of
           (Inl e, w') \<Rightarrow>
             (Inl e, logger_error w' (''Error loading Wikipedia dataset: '' @ exn_str e))
         | (Inr articles, w') \<Rightarrow> (Inr articles, w'))"

subsection \<open>\<^verbatim>\<open>extract_metadata\<close>\<close>

text \<open>
  The body of the \<^verbatim>\<open>try\<close> block, lines 70 to 81.  The dict display evaluates its values in
  order; the clock is read after the three \<^verbatim>\<open>get\<close> calls.  The test
  \<^verbatim>\<open>"categories" in article\<close> and the subscript are reached only for a dict.
\<close>

definition metadata_body :: "pyval \<Rightarrow> world \<Rightarrow> py_exn + pyval" where
  "metadata_body article w =
     (case py_get article ''id'' (PStr []) of
        Inl e \<Rightarrow> Inl e
      | Inr i \<Rightarrow>
          (case py_get article ''title'' (PStr []) of
             Inl e \<Rightarrow> Inl e
           | Inr t \<Rightarrow>
               (case py_get article ''url'' (PStr []) of
                  Inl e \<Rightarrow> Inl e
                | Inr u \<Rightarrow>
                    (let metadata =
                           [(''id'', i), (''title'', t), (''url'', u),
                            (''last_updated'', PStr (isoformat (utcnow w)))]
                     in case article of
                          PDict kvs \<Rightarrow>
                            (case map_of kvs ''categories'' of
                               Some c \<Rightarrow> Inr (PDict (metadata @ [(''categories'', c)]))
                             | None \<Rightarrow> Inr (PDict metadata))
                        | _ \<Rightarrow> Inr (PDict metadata)))))"

definition extract_metadata :: "extractor \<Rightarrow> pyval \<Rightarrow> world \<Rightarrow> (py_exn + pyval) \<times> world" where
  "extract_metadata self article w =
     (case metadata_body article w of
        Inl e \<Rightarrow> (Inl e, logger_error w (''Error extracting metadata: '' @ exn_str e))
      | Inr metadata \<Rightarrow> (Inr metadata, w))"

subsection \<open>\<^verbatim>\<open>save_to_blob_storage\<close>\<close>

text \<open>The body of the \<^verbatim>\<open>try\<close> block, lines 106 to 128.\<close>

definition save_body :: "pyval \<Rightarrow> string \<Rightarrow> string \<Rightarrow> world \<Rightarrow> (py_exn + bool) \<times> world" where
  "save_body article container_name connection_string w =
     bind_io (from_connection_string connection_string w) (\<lambda>_ w.
     bind_io (get_container_client container_name w) (\<lambda>_ w.
     bind_io (container_exists container_name w) (\<lambda>present w.
     bind_io (if present then (Inr (), w)
              else create_container container_name
                     (logger_info w (''Creating container '' @ container_name))) (\<lambda>_ w.
     bind_io (blob_name (py_repr w) article, w) (\<lambda>name w.
     bind_io (get_blob_client container_name name w) (\<lambda>_ w.
     bind_io (json_dumps article, w) (\<lambda>article_json w.
     bind_io (upload_blob container_name name article_json True w) (\<lambda>_ w.
       (Inr True,
        logger_info w (''Successfully uploaded article to '' @ name))))))))))"

text \<open>
  Lines 97 to 103 read the two storage settings from the environment of the call; the
  handler of lines 129 to 131 logs and returns \<^verbatim>\<open>False\<close>.
\<close>

definition save_to_blob_storage ::
  "extractor \<Rightarrow> pyval \<Rightarrow> string option \<Rightarrow> world \<Rightarrow> (py_exn + bool) \<times> world"
where
  "save_to_blob_storage self article container_name w =
     (let container_name =
            (case container_name of
               None \<Rightarrow> environ_get w ''AZURE_STORAGE_CONTAINER_NAME'' ''wikipedia-raw''
             | Some n \<Rightarrow> n);
          connection_string = environ w ''AZURE_STORAGE_CONNECTION_STRING''
      in case connection_string of
           None \<Rightarrow> (Inr False, logger_error w ''Missing Azure Storage connection string'')
         | Some cs \<Rightarrow>
             if cs = [] then
               (Inr False, logger_error w ''Missing Azure Storage connection string'')
             else
               (case save_body article container_name cs w of
                  (Inl e, w') \<Rightarrow>
                    (Inr False, logger_error w' (''Error saving to Blob Storage: '' @ exn_str e))
                | (Inr b, w') \<Rightarrow> (Inr b, w')))"

section \<open>A quiet world for running the module\<close>

text \<open>
  The environment given as a list of settings, an empty blob service that fails no call,
  an unreachable hub, a fixed clock, an empty log.
\<close>

definition fresh_world :: "(string \<times> string) list \<Rightarrow> world" where
  "fresh_world env =
     \<lparr>environ = map_of env,
      containers = Map.empty,
      sdk_calls = [],
      fault = (\<lambda>_. None),
      hub = (\<lambda>_ _ _. Inl (PyExn ''ConnectionError'' ''hub unreachable'')),
      utcnow = \<lparr>year = 2024, month = 1, day = 2, hour = 3, minute = 4, second = 5,
                microsecond = 678901\<rparr>,
      log = [],
      py_repr = (\<lambda>v. ''<'' @ type_name v @ ''>'')\<rparr>"

text \<open>The first record of the fixture of the repository's tests, with categories added.\<close>

definition sample_article :: pyval where
  "sample_article =
     PDict [(''id'', PStr ''12345''),
            (''url'', PStr ''https://en.wikipedia.org/wiki/Sample_Article_1''),
            (''title'', PStr ''Sample Article 1''),
            (''text'', PStr ''This is the content of sample article 1.''),
            (''categories'', PList [PStr ''Samples'', PStr ''Articles''])]"

definition sample_extractor :: extractor where
  "sample_extractor =
     \<lparr>dataset_name = ''wikimedia/wikipedia'', subset = ''20220301.en'', sample_size = 10\<rparr>"

text \<open>A world with a storage credential in which every upload is refused by the service.\<close>

definition refusing_world :: world where
  "refusing_world =
     (fresh_world [(''AZURE_STORAGE_CONNECTION_STRING'', ''UseDevelopmentStorage=true'')])
       \<lparr>fault :=
          (\<lambda>c. case c of
                  UploadBlob cn bn content overwrite \<Rightarrow>
                    Some (PyExn ''HttpResponseError'' ''Server failed to authenticate the request.'')
                | _ \<Rightarrow> None)\<rparr>"

text \<open>A world whose hub serves a dataset of three records.\<close>

definition three_records :: "pyval list" where
  "three_records =
     [PDict [(''id'', PStr ''1''), (''title'', PStr ''One'')],
      PDict [(''id'', PStr ''2''), (''title'', PStr ''Two'')],
      PDict [(''id'', PStr ''3''), (''title'', PStr ''Three'')]]"

definition serving_world :: world where
  "serving_world = (fresh_world [])\<lparr>hub := (\<lambda>name sub split. Inr (Dataset three_records))\<rparr>"
section \<open>JSON parsing: \<^verbatim>\<open>json.loads\<close>\<close>






















subsection \<open>Notions used in the round-trip proof\<close>




section \<open>Properties\<close>

lemmas run_defs =
  save_to_blob_storage_def save_body_def bind_io_def from_connection_string_def
  get_container_client_def container_exists_def create_container_def get_blob_client_def
  upload_blob_def sdk_request_def logger_info_def logger_error_def environ_get_def
  fresh_world_def blob_name_def py_get_def py_replace_def py_format_def json_dumps_def
  py_encode_basestring_def escape_char_def attribute_error_def Let_def

lemma map_nth_upt_take: "n \<le> length xs \<Longrightarrow> map (\<lambda>i. xs ! i) [0..<n] = take n xs"
  by (auto simp: list_eq_iff_nth_eq)

subsection \<open>The blob name\<close>

text \<open>
  Claim C3.  The blob name depends on the article only through its \<^verbatim>\<open>id\<close> and \<^verbatim>\<open>title\<close>
  fields: two articles that agree on both get the same name.  It is the formatted id
  (\<^verbatim>\<open>unknown\<close> when absent; a str id is inserted as it is), a hyphen, the title with every
  space replaced by an underscore (\<^verbatim>\<open>untitled\<close> when absent) and \<^verbatim>\<open>.json\<close>.  The article
  with id \<^verbatim>\<open>12345\<close> and title \<^verbatim>\<open>Sample Article 1\<close> is named
  \<^verbatim>\<open>12345-Sample_Article_1.json\<close> and the empty article \<^verbatim>\<open>unknown-untitled.json\<close>.
\<close>

theorem blob_name_of_id_and_title:
  "(map_of kvs ''id'' = map_of kvs' ''id'' \<and> map_of kvs ''title'' = map_of kvs' ''title''
      \<longrightarrow> blob_name repr (PDict kvs) = blob_name repr (PDict kvs'))
   \<and> (map_of kvs ''title'' = None \<longrightarrow>
        blob_name repr (PDict kvs) =
          Inr ((case map_of kvs ''id'' of None \<Rightarrow> ''unknown'' | Some i \<Rightarrow> py_format repr i)
               @ ''-'' @ ''untitled'' @ ''.json''))
   \<and> (map_of kvs ''title'' = Some (PStr t) \<longrightarrow>
        blob_name repr (PDict kvs) =
          Inr ((case map_of kvs ''id'' of None \<Rightarrow> ''unknown'' | Some i \<Rightarrow> py_format repr i)
               @ ''-'' @ map (\<lambda>c. if c = CHR '' '' then CHR ''_'' else c) t @ ''.json''))
   \<and> py_format repr (PStr s) = s
   \<and> blob_name repr (PDict [(''id'', PStr ''12345''), (''title'', PStr ''Sample Article 1'')])
        = Inr ''12345-Sample_Article_1.json''
   \<and> blob_name repr (PDict []) = Inr ''unknown-untitled.json''"
  by (simp add: blob_name_def py_get_def py_replace_def py_format_def split: option.splits)

theorem blob_name_of_id_and_title_witness:
  "blob_name (\<lambda>v. []) (PDict [(''title'', PStr ''A  b''), (''id'', PInt 42), (''text'', PStr ''x'')])
     = Inr ''42-A__b.json''
   \<and> blob_name (\<lambda>v. []) (PDict [(''text'', PStr ''y''), (''id'', PStr ''7'')])
     = Inr ''7-untitled.json''"
  using blob_name_of_id_and_title
          [of "[(''title'', PStr ''A  b''), (''id'', PInt 42), (''text'', PStr ''x'')]"
              "[]" "\<lambda>v. []" "''A  b''" "[]"]
        blob_name_of_id_and_title
          [of "[(''text'', PStr ''y''), (''id'', PStr ''7'')]" "[]" "\<lambda>v. []" "[]" "[]"]
  by (simp add: py_format_def int_repr_def digits_of.simps digit_char_def)

subsection \<open>Saving never raises\<close>

text \<open>
  Claim C2.  For every article (a mapping or not), every container name and every world,
  \<^verbatim>\<open>save_to_blob_storage\<close> returns \<^verbatim>\<open>True\<close> or \<^verbatim>\<open>False\<close> and raises nothing; whenever a
  step of the \<^verbatim>\<open>try\<close> block raises (client construction, existence check, container
  creation, blob name, serialisation, upload), the result is \<^verbatim>\<open>False\<close> and the error is
  logged.
\<close>

theorem save_never_raises:
  "(fst (save_to_blob_storage self article container_name w) = Inr True
    \<or> fst (save_to_blob_storage self article container_name w) = Inr False)
   \<and> (environ w ''AZURE_STORAGE_CONNECTION_STRING'' = Some cs \<and> cs \<noteq> [] \<and>
       fst (save_body article
              (case container_name of
                 None \<Rightarrow> environ_get w ''AZURE_STORAGE_CONTAINER_NAME'' ''wikipedia-raw''
               | Some n \<Rightarrow> n) cs w) = Inl e
       \<longrightarrow> fst (save_to_blob_storage self article container_name w) = Inr False
           \<and> last (log (snd (save_to_blob_storage self article container_name w))) =
               (''ERROR'', ''Error saving to Blob Storage: '' @ exn_str e))"
  by (auto simp: save_to_blob_storage_def Let_def logger_error_def
      split: option.splits prod.splits sum.splits)

theorem save_never_raises_witness:
  "fst (save_body sample_article ''wikipedia-raw'' ''UseDevelopmentStorage=true'' refusing_world)
     = Inl (PyExn ''HttpResponseError'' ''Server failed to authenticate the request.'')
   \<and> fst (save_to_blob_storage sample_extractor sample_article None refusing_world) = Inr False
   \<and> fst (save_to_blob_storage sample_extractor (PInt 5) None refusing_world) = Inr False"
proof -
  have env: "environ refusing_world ''AZURE_STORAGE_CONNECTION_STRING''
               = Some ''UseDevelopmentStorage=true''"
    by (simp add: refusing_world_def fresh_world_def)
  have name: "environ_get refusing_world ''AZURE_STORAGE_CONTAINER_NAME'' ''wikipedia-raw''
                = ''wikipedia-raw''"
    by (simp add: refusing_world_def fresh_world_def environ_get_def)
  have body: "fst (save_body sample_article ''wikipedia-raw'' ''UseDevelopmentStorage=true''
                     refusing_world)
                = Inl (PyExn ''HttpResponseError'' ''Server failed to authenticate the request.'')"
    by (simp add: run_defs refusing_world_def sample_article_def)
  have body': "fst (save_body (PInt 5) ''wikipedia-raw'' ''UseDevelopmentStorage=true''
                      refusing_world)
                 = Inl (attribute_error (PInt 5) ''get'')"
    by (simp add: run_defs refusing_world_def)
  show ?thesis
    using save_never_raises [of sample_extractor sample_article None refusing_world
        "''UseDevelopmentStorage=true''"
        "PyExn ''HttpResponseError'' ''Server failed to authenticate the request.''"]
      save_never_raises [of sample_extractor "PInt 5" None refusing_world
        "''UseDevelopmentStorage=true''" "attribute_error (PInt 5) ''get''"]
      env name body body'
    by simp
qed

subsection \<open>Saving without a credential\<close>

text \<open>
  Claim C6.  When the connection string is absent from the environment or empty,
  \<^verbatim>\<open>save_to_blob_storage\<close> returns \<^verbatim>\<open>False\<close> at once: the only effect is the logged
  message; no call of the storage service is made (no client construction, no existence
  check, no creation, no upload) and the blob store is unchanged.
\<close>

theorem save_without_credential:
  "environ w ''AZURE_STORAGE_CONNECTION_STRING'' = None
   \<or> environ w ''AZURE_STORAGE_CONNECTION_STRING'' = Some []
   \<Longrightarrow> save_to_blob_storage self article container_name w =
         (Inr False, logger_error w ''Missing Azure Storage connection string'')
       \<and> sdk_calls (snd (save_to_blob_storage self article container_name w)) = sdk_calls w
       \<and> containers (snd (save_to_blob_storage self article container_name w)) = containers w"
  by (auto simp: save_to_blob_storage_def Let_def logger_error_def)

theorem save_without_credential_witness:
  "fst (save_to_blob_storage sample_extractor sample_article None (fresh_world [])) = Inr False
   \<and> sdk_calls (snd (save_to_blob_storage sample_extractor sample_article None (fresh_world [])))
       = []
   \<and> fst (save_to_blob_storage sample_extractor sample_article (Some ''c'')
            (fresh_world [(''AZURE_STORAGE_CONNECTION_STRING'', [])])) = Inr False
   \<and> sdk_calls (snd (save_to_blob_storage sample_extractor sample_article (Some ''c'')
                       (fresh_world [(''AZURE_STORAGE_CONNECTION_STRING'', [])]))) = []"
proof -
  have a: "environ (fresh_world []) ''AZURE_STORAGE_CONNECTION_STRING'' = None"
    by (simp add: fresh_world_def)
  have b: "environ (fresh_world [(''AZURE_STORAGE_CONNECTION_STRING'', [])])
             ''AZURE_STORAGE_CONNECTION_STRING'' = Some []"
    by (simp add: fresh_world_def)
  have c: "sdk_calls (fresh_world []) = []"
    "sdk_calls (fresh_world [(''AZURE_STORAGE_CONNECTION_STRING'', [])]) = []"
    by (simp_all add: fresh_world_def)
  show ?thesis
    using save_without_credential [of "fresh_world []" sample_extractor sample_article None]
      save_without_credential [of "fresh_world [(''AZURE_STORAGE_CONNECTION_STRING'', [])]"
        sample_extractor sample_article "Some ''c''"]
      a b c
    by (simp add: logger_error_def)
qed

subsection \<open>Metadata\<close>

text \<open>
  Claim C4.  For an article that is a mapping, \<^verbatim>\<open>extract_metadata\<close> returns the record
  with \<^verbatim>\<open>id\<close>, \<^verbatim>\<open>title\<close> and \<^verbatim>\<open>url\<close> equal to the article's values (the empty string for
  an absent field), \<^verbatim>\<open>last_updated\<close> equal to the ISO format of the clock's UTC time at
  the call, and a \<^verbatim>\<open>categories\<close> entry exactly when the article has one, with the same
  value; nothing else is in the record and the world is left as it was.
\<close>

theorem extract_metadata_fields:
  "extract_metadata self (PDict kvs) w =
     (Inr (PDict
        ([(''id'', case map_of kvs ''id'' of None \<Rightarrow> PStr [] | Some v \<Rightarrow> v),
          (''title'', case map_of kvs ''title'' of None \<Rightarrow> PStr [] | Some v \<Rightarrow> v),
          (''url'', case map_of kvs ''url'' of None \<Rightarrow> PStr [] | Some v \<Rightarrow> v),
          (''last_updated'', PStr (isoformat (utcnow w)))]
         @ (case map_of kvs ''categories'' of None \<Rightarrow> [] | Some c \<Rightarrow> [(''categories'', c)]))),
      w)"
  by (simp add: extract_metadata_def metadata_body_def py_get_def split: option.splits)

theorem extract_metadata_fields_witness:
  "fst (extract_metadata sample_extractor sample_article (fresh_world [])) =
     Inr (PDict [(''id'', PStr ''12345''), (''title'', PStr ''Sample Article 1''),
                 (''url'', PStr ''https://en.wikipedia.org/wiki/Sample_Article_1''),
                 (''last_updated'', PStr ''2024-01-02T03:04:05.678901''),
                 (''categories'', PList [PStr ''Samples'', PStr ''Articles''])])
   \<and> fst (extract_metadata sample_extractor (PDict [(''title'', PStr ''T'')]) (fresh_world [])) =
     Inr (PDict [(''id'', PStr []), (''title'', PStr ''T''), (''url'', PStr []),
                 (''last_updated'', PStr ''2024-01-02T03:04:05.678901'')])"
  using extract_metadata_fields
          [of sample_extractor
              "[(''id'', PStr ''12345''),
                (''url'', PStr ''https://en.wikipedia.org/wiki/Sample_Article_1''),
                (''title'', PStr ''Sample Article 1''),
                (''text'', PStr ''This is the content of sample article 1.''),
                (''categories'', PList [PStr ''Samples'', PStr ''Articles''])]"
              "fresh_world []"]
        extract_metadata_fields [of sample_extractor "[(''title'', PStr ''T'')]" "fresh_world []"]
  by (simp add: sample_article_def fresh_world_def isoformat_def zfill_def digits_of.simps
      digit_char_def)

subsection \<open>Loading a sample\<close>

text \<open>
  Claim C5.  When the hub serves the configured dataset and it has at least \<open>n\<close> records,
  for a positive sample size \<open>n\<close> (given, or the configured one when none is given)
  \<^verbatim>\<open>load_wikipedia_subset\<close> returns exactly \<open>n\<close> records: the first \<open>n\<close> records of the
  dataset in the dataset's order.
\<close>

theorem load_returns_prefix:
  assumes "hub w (dataset_name self) (subset self) ''train'' = Inr ds"
    and "n = (case requested of None \<Rightarrow> sample_size self | Some k \<Rightarrow> k)"
    and "0 < n" and "nat n \<le> length (rows ds)"
  shows "fst (load_wikipedia_subset self requested w) = Inr (take (nat n) (rows ds))
         \<and> length (take (nat n) (rows ds)) = nat n"
  using assms
  by (simp add: load_wikipedia_subset_def load_body_def load_dataset_def bind_io_def
      dataset_select_def py_range_def list_all_iff map_nth_upt_take Let_def logger_info_def
      split: option.splits)

theorem load_returns_prefix_witness:
  "fst (load_wikipedia_subset sample_extractor (Some 2) serving_world) =
     Inr [PDict [(''id'', PStr ''1''), (''title'', PStr ''One'')],
          PDict [(''id'', PStr ''2''), (''title'', PStr ''Two'')]]"
proof -
  have h: "hub serving_world (dataset_name sample_extractor) (subset sample_extractor) ''train''
             = Inr (Dataset three_records)"
    by (simp add: serving_world_def)
  have l: "nat 2 \<le> length (rows (Dataset three_records))"
    by (simp add: three_records_def)
  show ?thesis
    using load_returns_prefix [OF h, of 2 "Some 2"] l
    by (simp add: three_records_def)
qed



subsection \<open>Loading and metadata extraction re-raise\<close>

text \<open>
  Claim C8.  An exception raised inside \<^verbatim>\<open>load_wikipedia_subset\<close> (by the hub or by the
  selection) or inside \<^verbatim>\<open>extract_metadata\<close> (by field access on something that is not a
  mapping) reaches the caller unchanged, after an error entry has been logged: neither
  operation swallows an error.
\<close>

theorem load_and_extract_reraise:
  "(fst (load_body self (case requested of None \<Rightarrow> sample_size self | Some k \<Rightarrow> k) w) = Inl e
      \<longrightarrow> fst (load_wikipedia_subset self requested w) = Inl e
          \<and> last (log (snd (load_wikipedia_subset self requested w))) =
              (''ERROR'', ''Error loading Wikipedia dataset: '' @ exn_str e))
   \<and> (hub w (dataset_name self) (subset self) ''train'' = Inl e
      \<longrightarrow> fst (load_wikipedia_subset self requested w) = Inl e)
   \<and> (hub w (dataset_name self) (subset self) ''train'' = Inr ds \<and>
       dataset_select ds (py_range (case requested of None \<Rightarrow> sample_size self | Some k \<Rightarrow> k))
         = Inl e
      \<longrightarrow> fst (load_wikipedia_subset self requested w) = Inl e)
   \<and> (metadata_body article w = Inl e
      \<longrightarrow> extract_metadata self article w =
            (Inl e, logger_error w (''Error extracting metadata: '' @ exn_str e)))
   \<and> ((\<forall>kvs. article \<noteq> PDict kvs)
      \<longrightarrow> fst (extract_metadata self article w) = Inl (attribute_error article ''get''))"
proof -
  have a: "fst (load_body self (case requested of None \<Rightarrow> sample_size self | Some k \<Rightarrow> k) w)
             = Inl e
      \<longrightarrow> fst (load_wikipedia_subset self requested w) = Inl e
          \<and> last (log (snd (load_wikipedia_subset self requested w))) =
              (''ERROR'', ''Error loading Wikipedia dataset: '' @ exn_str e)"
    by (auto simp: load_wikipedia_subset_def Let_def logger_error_def
        split: prod.splits sum.splits)
  have b: "hub w (dataset_name self) (subset self) ''train'' = Inl e
      \<longrightarrow> fst (load_wikipedia_subset self requested w) = Inl e"
    by (simp add: load_wikipedia_subset_def load_body_def load_dataset_def bind_io_def Let_def
        logger_info_def)
  have c: "hub w (dataset_name self) (subset self) ''train'' = Inr ds \<and>
       dataset_select ds (py_range (case requested of None \<Rightarrow> sample_size self | Some k \<Rightarrow> k))
         = Inl e
      \<longrightarrow> fst (load_wikipedia_subset self requested w) = Inl e"
    by (simp add: load_wikipedia_subset_def load_body_def load_dataset_def bind_io_def Let_def
        logger_info_def)
  have d: "metadata_body article w = Inl e
      \<longrightarrow> extract_metadata self article w =
            (Inl e, logger_error w (''Error extracting metadata: '' @ exn_str e))"
    by (simp add: extract_metadata_def)
  have e: "(\<forall>kvs. article \<noteq> PDict kvs)
      \<longrightarrow> fst (extract_metadata self article w) = Inl (attribute_error article ''get'')"
    by (cases article) (simp_all add: extract_metadata_def metadata_body_def py_get_def)
  from a b c d e show ?thesis by blast
qed

theorem load_and_extract_reraise_witness:
  "fst (load_wikipedia_subset sample_extractor None (fresh_world []))
     = Inl (PyExn ''ConnectionError'' ''hub unreachable'')
   \<and> last (log (snd (load_wikipedia_subset sample_extractor None (fresh_world []))))
     = (''ERROR'', ''Error loading Wikipedia dataset: hub unreachable'')
   \<and> extract_metadata sample_extractor (PList []) (fresh_world [])
     = (Inl (attribute_error (PList []) ''get''),
        logger_error (fresh_world [])
          (''Error extracting metadata: '' @ exn_str (attribute_error (PList []) ''get'')))"
proof -
  have h: "hub (fresh_world []) (dataset_name sample_extractor) (subset sample_extractor) ''train''
             = Inl (PyExn ''ConnectionError'' ''hub unreachable'')"
    by (simp add: fresh_world_def)
  have b: "fst (load_body sample_extractor
                  (case None of None \<Rightarrow> sample_size sample_extractor | Some k \<Rightarrow> k)
                  (fresh_world []))
             = Inl (PyExn ''ConnectionError'' ''hub unreachable'')"
    by (simp add: load_body_def load_dataset_def bind_io_def logger_info_def fresh_world_def)
  have m: "metadata_body (PList []) (fresh_world []) = Inl (attribute_error (PList []) ''get'')"
    by (simp add: metadata_body_def py_get_def)
  show ?thesis
    using load_and_extract_reraise [of sample_extractor None "fresh_world []"
        "PyExn ''ConnectionError'' ''hub unreachable''" "Dataset []" "PInt 0"]
      load_and_extract_reraise [of sample_extractor None "fresh_world []"
        "attribute_error (PList []) ''get''" "Dataset []" "PList []"]
      h b m
    by simp
qed

subsection \<open>A successful save\<close>

lemma save_succeeds:
  assumes "environ w ''AZURE_STORAGE_CONNECTION_STRING'' = Some cs" and "cs \<noteq> []"
    and "fault w = (\<lambda>c. None)"
    and "blob_name (py_repr w) article = Inr name"
    and "json_dumps article = Inr payload"
    and "cn = (case container_name of
                 None \<Rightarrow> environ_get w ''AZURE_STORAGE_CONTAINER_NAME'' ''wikipedia-raw''
               | Some n \<Rightarrow> n)"
  shows "fst (save_to_blob_storage self article container_name w) = Inr True
    \<and> containers (snd (save_to_blob_storage self article container_name w)) =
        (containers w)(cn \<mapsto> (case containers w cn of None \<Rightarrow> Map.empty | Some blobs \<Rightarrow> blobs)
                                 (name \<mapsto> payload))
    \<and> sdk_calls (snd (save_to_blob_storage self article container_name w)) =
        sdk_calls w @ [FromConnectionString cs, GetContainerClient cn, ContainerExists cn]
          @ (if containers w cn = None then [CreateContainer cn] else [])
          @ [GetBlobClient cn name, UploadBlob cn name payload True]
    \<and> environ (snd (save_to_blob_storage self article container_name w)) = environ w
    \<and> fault (snd (save_to_blob_storage self article container_name w)) = fault w
    \<and> py_repr (snd (save_to_blob_storage self article container_name w)) = py_repr w"
  using assms
  by (auto simp: save_to_blob_storage_def save_body_def bind_io_def from_connection_string_def
      get_container_client_def container_exists_def create_container_def get_blob_client_def
      upload_blob_def sdk_request_def logger_info_def logger_error_def Let_def
      split: option.splits)

subsection \<open>Two articles, one blob\<close>

text \<open>
  Claim C9.  The blob name is not injective: the articles with id \<^verbatim>\<open>1\<close> and titles
  \<^verbatim>\<open>A B\<close> and \<^verbatim>\<open>A_B\<close> differ but are both named \<^verbatim>\<open>1-A_B.json\<close>; when the storage
  calls succeed, saving the first and then the second into the same container leaves the
  second article's JSON under that name, where the first one's was.
\<close>

theorem blob_name_collision:
  assumes "environ w ''AZURE_STORAGE_CONNECTION_STRING'' = Some cs" and "cs \<noteq> []"
    and "fault w = (\<lambda>c. None)"
    and "a1 = PDict [(''id'', PStr ''1''), (''title'', PStr ''A B'')]"
    and "a2 = PDict [(''id'', PStr ''1''), (''title'', PStr ''A_B'')]"
    and "w1 = snd (save_to_blob_storage self a1 (Some cn) w)"
    and "w2 = snd (save_to_blob_storage self a2 (Some cn) w1)"
  shows "a1 \<noteq> a2
    \<and> blob_name (py_repr w) a1 = Inr ''1-A_B.json''
    \<and> blob_name (py_repr w) a2 = Inr ''1-A_B.json''
    \<and> fst (save_to_blob_storage self a1 (Some cn) w) = Inr True
    \<and> fst (save_to_blob_storage self a2 (Some cn) w1) = Inr True
    \<and> (\<exists>p1 p2 blobs1 blobs2.
          json_dumps a1 = Inr p1 \<and> json_dumps a2 = Inr p2 \<and> p1 \<noteq> p2
          \<and> containers w1 cn = Some blobs1 \<and> blobs1 ''1-A_B.json'' = Some p1
          \<and> containers w2 cn = Some blobs2 \<and> blobs2 ''1-A_B.json'' = Some p2)"
proof -
  have n1: "blob_name (py_repr w) a1 = Inr ''1-A_B.json''"
    and n2: "blob_name (py_repr w) a2 = Inr ''1-A_B.json''"
    using assms(4,5) by (simp_all add: blob_name_def py_get_def py_replace_def py_format_def)
  obtain p1 p2 where d1: "json_dumps a1 = Inr p1" and d2: "json_dumps a2 = Inr p2"
    and ne: "p1 \<noteq> p2"
    using assms(4,5) by (simp add: json_dumps_def py_encode_basestring_def escape_char_def)
  have s1: "fst (save_to_blob_storage self a1 (Some cn) w) = Inr True
    \<and> containers w1 =
        (containers w)(cn \<mapsto> (case containers w cn of None \<Rightarrow> Map.empty | Some blobs \<Rightarrow> blobs)
                                 (''1-A_B.json'' \<mapsto> p1))
    \<and> environ w1 = environ w \<and> fault w1 = fault w \<and> py_repr w1 = py_repr w"
    using save_succeeds [OF assms(1,2,3) n1 d1, of cn "Some cn" self] assms(6) by simp
  then have n2': "blob_name (py_repr w1) a2 = Inr ''1-A_B.json''"
    using n2 by simp
  have s2: "fst (save_to_blob_storage self a2 (Some cn) w1) = Inr True
    \<and> containers w2 =
        (containers w1)(cn \<mapsto> (case containers w1 cn of None \<Rightarrow> Map.empty | Some blobs \<Rightarrow> blobs)
                                  (''1-A_B.json'' \<mapsto> p2))"
    using save_succeeds [OF _ assms(2) _ n2' d2, of cn "Some cn" self] s1 assms(1,3,7) by simp
  show ?thesis
    using n1 n2 d1 d2 ne s1 s2 assms(4,5) by simp
qed

theorem blob_name_collision_witness:
  "fst (save_to_blob_storage sample_extractor
          (PDict [(''id'', PStr ''1''), (''title'', PStr ''A B'')]) (Some ''raw'')
          (fresh_world [(''AZURE_STORAGE_CONNECTION_STRING'', ''UseDevelopmentStorage=true'')]))
     = Inr True
   \<and> fst (save_to_blob_storage sample_extractor
          (PDict [(''id'', PStr ''1''), (''title'', PStr ''A_B'')]) (Some ''raw'')
          (snd (save_to_blob_storage sample_extractor
                  (PDict [(''id'', PStr ''1''), (''title'', PStr ''A B'')]) (Some ''raw'')
                  (fresh_world
                     [(''AZURE_STORAGE_CONNECTION_STRING'', ''UseDevelopmentStorage=true'')]))))
     = Inr True"
proof -
  have e: "environ (fresh_world
                      [(''AZURE_STORAGE_CONNECTION_STRING'', ''UseDevelopmentStorage=true'')])
             ''AZURE_STORAGE_CONNECTION_STRING'' = Some ''UseDevelopmentStorage=true''"
    by (simp add: fresh_world_def)
  have n: "''UseDevelopmentStorage=true'' \<noteq> []"
    by simp
  have f: "fault (fresh_world
                    [(''AZURE_STORAGE_CONNECTION_STRING'', ''UseDevelopmentStorage=true'')])
             = (\<lambda>c. None)"
    by (simp add: fresh_world_def)
  show ?thesis
    using blob_name_collision [OF e n f refl refl refl refl, of sample_extractor "''raw''"]
    by simp
qed

subsection \<open>Where the settings are read\<close>

text \<open>
  Claim C1, as stated, fails: an extractor constructed while the environment held one
  connection string and one container name, and used after the environment changed,
  connects with the connection string and the container name of the time of the call;
  used in an environment without connection string, it returns \<^verbatim>\<open>False\<close>.
\<close>

theorem settings_read_at_call_counterexample:
  "init (fresh_world [(''WIKIPEDIA_SAMPLE_SIZE'', ''10''),
                      (''AZURE_STORAGE_CONNECTION_STRING'', ''credential-at-construction''),
                      (''AZURE_STORAGE_CONTAINER_NAME'', ''container-at-construction'')])
     = Inr sample_extractor
   \<and> take 2 (sdk_calls (snd (save_to_blob_storage sample_extractor sample_article None
        (fresh_world [(''AZURE_STORAGE_CONNECTION_STRING'', ''credential-at-call''),
                      (''AZURE_STORAGE_CONTAINER_NAME'', ''container-at-call'')]))))
     = [FromConnectionString ''credential-at-call'', GetContainerClient ''container-at-call'']
   \<and> fst (save_to_blob_storage sample_extractor sample_article None (fresh_world [])) = Inr False"
  by (simp add: init_def run_defs sample_article_def sample_extractor_def py_int_def strip_def
      is_space_def unsigned_value_def is_digit_def digit_val_def)

text \<open>
  Claim C1, amended.  The dataset name, the subset identifier and the sample size are
  read from the environment once, at construction, and \<^verbatim>\<open>load_wikipedia_subset\<close> uses
  the captured values whatever the environment holds when it is called.  The container
  name default and the connection string are not captured: \<^verbatim>\<open>save_to_blob_storage\<close> uses
  nothing of the extractor and reads both from the environment at each call.
\<close>

theorem settings_captured_or_read_at_call:
  "(init wc = Inr self \<longrightarrow>
      dataset_name self = environ_get wc ''WIKIPEDIA_DATASET_NAME'' ''wikimedia/wikipedia''
      \<and> subset self = environ_get wc ''WIKIPEDIA_SUBSET'' ''20220301.en''
      \<and> py_int (py_repr wc) (environ_get wc ''WIKIPEDIA_SAMPLE_SIZE'' ''1000'')
          = Inr (sample_size self))
   \<and> fst (load_wikipedia_subset self requested (w\<lparr>environ := env\<rparr>))
       = fst (load_wikipedia_subset self requested w)
   \<and> save_to_blob_storage self article container_name w
       = save_to_blob_storage self' article container_name w
   \<and> (environ w ''AZURE_STORAGE_CONNECTION_STRING'' = Some cs \<and> cs \<noteq> [] \<and>
       fault w (FromConnectionString cs) = None
       \<longrightarrow> (\<exists>rest. sdk_calls (snd (save_to_blob_storage self article None w)) =
              sdk_calls w @ FromConnectionString cs
                # GetContainerClient
                    (environ_get w ''AZURE_STORAGE_CONTAINER_NAME'' ''wikipedia-raw'')
                # rest))"
proof -
  have a: "init wc = Inr self \<longrightarrow>
      dataset_name self = environ_get wc ''WIKIPEDIA_DATASET_NAME'' ''wikimedia/wikipedia''
      \<and> subset self = environ_get wc ''WIKIPEDIA_SUBSET'' ''20220301.en''
      \<and> py_int (py_repr wc) (environ_get wc ''WIKIPEDIA_SAMPLE_SIZE'' ''1000'')
          = Inr (sample_size self)"
    by (auto simp: init_def split: sum.splits)
  have b: "fst (load_wikipedia_subset self requested (w\<lparr>environ := env\<rparr>))
       = fst (load_wikipedia_subset self requested w)"
    by (simp add: load_wikipedia_subset_def load_body_def load_dataset_def bind_io_def Let_def
        logger_info_def split: sum.splits prod.splits)
  have c: "save_to_blob_storage self article container_name w
       = save_to_blob_storage self' article container_name w"
    by (simp add: save_to_blob_storage_def)
  have d: "environ w ''AZURE_STORAGE_CONNECTION_STRING'' = Some cs \<and> cs \<noteq> [] \<and>
       fault w (FromConnectionString cs) = None
       \<longrightarrow> (\<exists>rest. sdk_calls (snd (save_to_blob_storage self article None w)) =
              sdk_calls w @ FromConnectionString cs
                # GetContainerClient
                    (environ_get w ''AZURE_STORAGE_CONTAINER_NAME'' ''wikipedia-raw'')
                # rest)"
    by (auto simp: save_to_blob_storage_def save_body_def bind_io_def from_connection_string_def
        get_container_client_def container_exists_def create_container_def get_blob_client_def
        upload_blob_def sdk_request_def logger_info_def logger_error_def Let_def
        split: option.splits sum.splits)
  from a b c d show ?thesis by blast
qed

theorem settings_captured_or_read_at_call_witness:
  "dataset_name sample_extractor = ''wikimedia/wikipedia''
   \<and> sample_size sample_extractor = 10
   \<and> fst (load_wikipedia_subset sample_extractor None
            (serving_world\<lparr>environ := map_of [(''WIKIPEDIA_SAMPLE_SIZE'', ''1'')]\<rparr>))
       = fst (load_wikipedia_subset sample_extractor None serving_world)
   \<and> (\<exists>rest. sdk_calls (snd (save_to_blob_storage sample_extractor sample_article None
                 (fresh_world [(''AZURE_STORAGE_CONNECTION_STRING'', ''credential-at-call'')])))
        = FromConnectionString ''credential-at-call'' # GetContainerClient ''wikipedia-raw''
            # rest)"
proof -
  have i: "init (fresh_world [(''WIKIPEDIA_SAMPLE_SIZE'', ''10'')]) = Inr sample_extractor"
    by (simp add: init_def fresh_world_def environ_get_def sample_extractor_def py_int_def
        strip_def is_space_def unsigned_value_def is_digit_def digit_val_def)
  have e: "environ (fresh_world [(''AZURE_STORAGE_CONNECTION_STRING'', ''credential-at-call'')])
             ''AZURE_STORAGE_CONNECTION_STRING'' = Some ''credential-at-call''"
    "fault (fresh_world [(''AZURE_STORAGE_CONNECTION_STRING'', ''credential-at-call'')])
       (FromConnectionString ''credential-at-call'') = None"
    "sdk_calls (fresh_world [(''AZURE_STORAGE_CONNECTION_STRING'', ''credential-at-call'')]) = []"
    "environ_get (fresh_world [(''AZURE_STORAGE_CONNECTION_STRING'', ''credential-at-call'')])
       ''AZURE_STORAGE_CONTAINER_NAME'' ''wikipedia-raw'' = ''wikipedia-raw''"
    by (simp_all add: fresh_world_def environ_get_def)
  show ?thesis
    using settings_captured_or_read_at_call
            [where wc = "fresh_world [(''WIKIPEDIA_SAMPLE_SIZE'', ''10'')]"
               and self = sample_extractor and requested = None and w = serving_world
               and env = "map_of [(''WIKIPEDIA_SAMPLE_SIZE'', ''1'')]"]
          settings_captured_or_read_at_call
            [where self = sample_extractor and article = sample_article
               and w = "fresh_world [(''AZURE_STORAGE_CONNECTION_STRING'', ''credential-at-call'')]"
               and cs = "''credential-at-call''"]
          i e
    by (simp add: fresh_world_def environ_get_def sample_extractor_def)
qed

subsection \<open>Parsing what the encoder wrote\<close>































subsection \<open>The uploaded payload\<close>




end
